theory Spec2Isabelle
  imports Main "HOL-Library.Word"
begin

unbundle bit_operations_syntax

section \<open>The process being patched\<close>

text \<open>
  The plugin is a 32-bit x86 DLL loaded into SimCity 4: \<open>uintptr_t\<close> is a 32-bit word,
  the hooked instruction is the five-byte near call \<open>E8 rel32\<close>, and a 32-bit store
  puts the least significant byte at the lowest address.  Address arithmetic is the
  arithmetic of \<open>uintptr_t\<close> and wraps around modulo \<open>2 ^ 32\<close>.
\<close>

type_synonym addr = "32 word"
type_synonym byte = "8 word"
type_synonym DWORD = "32 word"

text \<open>
  What the process does to the operating system and to its own memory is recorded as a
  list of events, in the order in which it happens.
\<close>

datatype event =
    EvVirtualProtect addr nat DWORD bool
  | EvStore8 addr byte
  | EvStore32 addr "32 word"

datatype LogLevel = Info | Error | Debug

text \<open>
  A call of \<open>Logger::WriteLine\<close> or \<open>Logger::WriteLineFormatted\<close>: the level, the text
  or format string, and the arguments of the format.  \<open>ArgWhat e\<close> stands for the text
  \<open>what()\<close> of a \<open>wil::ResultException\<close> that carries the error \<open>e\<close>.
\<close>

datatype fmt_arg = ArgInt int | ArgStr string | ArgWhat DWORD

datatype log_line = LogLine LogLevel string "fmt_arg list"

text \<open>
  The state of the host process as far as the plugin touches it:
  \<^item> \<open>memory\<close>: the byte at every address;
  \<^item> \<open>page_prot\<close>: the protection of every 4 KiB page, indexed by page number;
  \<^item> \<open>vp_refuses\<close>: the operating system's answer to a \<open>VirtualProtect\<close> request for
    a base address and a size: \<open>None\<close> when it grants the request, \<open>Some e\<close> when it
    refuses it with the error code \<open>e\<close>;
  \<^item> \<open>last_error\<close>: the value \<open>GetLastError\<close> returns;
  \<^item> \<open>trace\<close>: the events so far;
  \<^item> \<open>log\<close>: the lines handed to the logger so far.
\<close>

record process =
  memory :: "addr \<Rightarrow> byte"
  page_prot :: "addr \<Rightarrow> DWORD"
  vp_refuses :: "addr \<Rightarrow> nat \<Rightarrow> DWORD option"
  last_error :: DWORD
  trace :: "event list"
  log :: "log_line list"

definition PAGE_EXECUTE_READWRITE :: DWORD where
  "PAGE_EXECUTE_READWRITE = 0x40"

definition page_of :: "addr \<Rightarrow> addr" where
  "page_of a = drop_bit 12 a"

definition pages_of :: "addr \<Rightarrow> nat \<Rightarrow> addr list" where
  "pages_of a n = map (\<lambda>k. page_of (a + of_nat k)) [0..<n]"

text \<open>
  \<open>VirtualProtect(lpAddress, dwSize, flNewProtect, lpflOldProtect)\<close> of the Win32 API.
  When the system grants the request, every page holding a byte of the range gets the
  new protection and the protection the first page had is stored through
  \<open>lpflOldProtect\<close>; when it refuses, nothing changes but the last error, and the
  variable behind \<open>lpflOldProtect\<close> keeps its value.
\<close>

definition VirtualProtect ::
  "addr \<Rightarrow> nat \<Rightarrow> DWORD \<Rightarrow> DWORD \<Rightarrow> process \<Rightarrow> bool \<times> DWORD \<times> process" where
  "VirtualProtect lpAddress dwSize flNewProtect oldProtect s =
     (case vp_refuses s lpAddress dwSize of
        Some err \<Rightarrow>
          (False, oldProtect,
           s\<lparr>last_error := err,
             trace := trace s @ [EvVirtualProtect lpAddress dwSize flNewProtect False]\<rparr>)
      | None \<Rightarrow>
          (True, page_prot s (page_of lpAddress),
           s\<lparr>page_prot := (\<lambda>p. if p \<in> set (pages_of lpAddress dwSize)
                                 then flNewProtect else page_prot s p),
             trace := trace s @ [EvVirtualProtect lpAddress dwSize flNewProtect True]\<rparr>))"

text \<open>
  \<open>wil::ResultException\<close>, reduced to the Win32 error it was made from.
\<close>

datatype ResultException = ResultException DWORD

text \<open>
  The macro \<open>THROW_IF_WIN32_BOOL_FALSE\<close> of the Windows Implementation Library: when the
  \<open>BOOL\<close> is false it throws a \<open>ResultException\<close> made from \<open>GetLastError()\<close>.
\<close>

definition THROW_IF_WIN32_BOOL_FALSE :: "bool \<Rightarrow> process \<Rightarrow> ResultException + unit" where
  "THROW_IF_WIN32_BOOL_FALSE ok s =
     (if ok then Inr () else Inl (ResultException (last_error s)))"

text \<open>The two stores of \<open>InstallCallHook\<close>: through a \<open>uint8_t*\<close> and a \<open>uintptr_t*\<close>.\<close>

definition store_u8 :: "addr \<Rightarrow> byte \<Rightarrow> process \<Rightarrow> process" where
  "store_u8 a v s =
     s\<lparr>memory := (memory s)(a := v), trace := trace s @ [EvStore8 a v]\<rparr>"

definition store_u32 :: "addr \<Rightarrow> 32 word \<Rightarrow> process \<Rightarrow> process" where
  "store_u32 a v s =
     s\<lparr>memory := (memory s)
          (a := ucast v,
           a + 1 := ucast (drop_bit 8 v),
           a + 2 := ucast (drop_bit 16 v),
           a + 3 := ucast (drop_bit 24 v)),
       trace := trace s @ [EvStore32 a v]\<rparr>"

text \<open>Reading a \<open>uintptr_t\<close> back from memory, least significant byte first.\<close>

definition load_u32 :: "(addr \<Rightarrow> byte) \<Rightarrow> addr \<Rightarrow> 32 word" where
  "load_u32 m a =
     ucast (m a) OR push_bit 8 (ucast (m (a + 1))) OR
     push_bit 16 (ucast (m (a + 2))) OR push_bit 24 (ucast (m (a + 3)))"

section \<open>The memory patcher\<close>

text \<open>
  \<open>InstallCallHook(uintptr_t targetAddress, void* pfnFunc)\<close>.  The result is the
  exception thrown, or \<open>()\<close> on a normal return, together with the process afterwards.
\<close>

definition InstallCallHook ::
  "addr \<Rightarrow> addr \<Rightarrow> process \<Rightarrow> (ResultException + unit) \<times> process" where
  "InstallCallHook targetAddress pfnFunc s =
     (case VirtualProtect targetAddress 5 PAGE_EXECUTE_READWRITE 0 s of
        (ok, oldProtect, s1) \<Rightarrow>
          (case THROW_IF_WIN32_BOOL_FALSE ok s1 of
             Inl e \<Rightarrow> (Inl e, s1)
           | Inr _ \<Rightarrow>
               (Inr (),
                store_u32 (targetAddress + 1) (pfnFunc - targetAddress - 5)
                  (store_u8 targetAddress 0xE8 s1))))"

section \<open>The replacement function\<close>

text \<open>
  The objects of the host that the diagnostic read of the replacement function walks
  through.  An object lives at an address; an address at which the heap has no object
  of the expected class is an invalid pointer.
  \<^item> \<open>occupants\<close>: for a \<open>cISC4Occupant\<close>, the pointer \<open>AsPropertyHolder()\<close> returns;
  \<^item> \<open>holders\<close>: for a \<open>cISCPropertyHolder\<close>, the pointer \<open>GetProperty(id)\<close> returns
    for every property id (null when the holder has no such property);
  \<^item> \<open>properties\<close>: for a \<open>cISCProperty\<close>, the pointer \<open>GetPropertyValue()\<close> returns;
  \<^item> \<open>variants\<close>: for a \<open>cIGZVariant\<close>, what \<open>GetType()\<close> and \<open>RefRZChar()\<close> return;
  \<^item> \<open>cstrings\<close>: the zero-terminated character arrays.
\<close>

text \<open>
  The values of \<open>cIGZVariant::Type\<close>: the source compares with \<open>RZCharArray\<close> only,
  every other value of the enumeration is an \<open>OtherType\<close>.
\<close>

datatype variant_type = RZCharArray | OtherType nat

record variant =
  vtype :: variant_type
  rzchar :: addr

record heap =
  occupants :: "addr \<rightharpoonup> addr"
  holders :: "addr \<rightharpoonup> (32 word \<Rightarrow> addr)"
  properties :: "addr \<rightharpoonup> addr"
  variants :: "addr \<rightharpoonup> variant"
  cstrings :: "addr \<rightharpoonup> string"

text \<open>
  Going through a pointer.  C++ gives no meaning to a call through a null or invalid
  pointer; the model makes it a fault that ends the host process.
\<close>

datatype fault = AccessViolation

definition deref :: "(addr \<rightharpoonup> 'a) \<Rightarrow> addr \<Rightarrow> fault + 'a" where
  "deref objs p =
     (if p = 0 then Inl AccessViolation
      else case objs p of None \<Rightarrow> Inl AccessViolation | Some x \<Rightarrow> Inr x)"

definition kExemplarName :: "32 word" where
  "kExemplarName = 0x00000020"

text \<open>\<open>std::string GetOccupantExemplarName(cISC4Occupant* pOccupant)\<close>\<close>

definition GetOccupantExemplarName :: "heap \<Rightarrow> addr \<Rightarrow> fault + string" where
  "GetOccupantExemplarName h pOccupant =
     (case deref (occupants h) pOccupant of
        Inl f \<Rightarrow> Inl f
      | Inr propertyHolder \<Rightarrow>
          (case deref (holders h) propertyHolder of
             Inl f \<Rightarrow> Inl f
           | Inr GetProperty \<Rightarrow>
               (let exemplarName = GetProperty kExemplarName in
                if exemplarName \<noteq> 0 then
                  (case deref (properties h) exemplarName of
                     Inl f \<Rightarrow> Inl f
                   | Inr propertyValue \<Rightarrow>
                       (case deref (variants h) propertyValue of
                          Inl f \<Rightarrow> Inl f
                        | Inr v \<Rightarrow>
                            if vtype v = RZCharArray then
                              (case deref (cstrings h) (rzchar v) of
                                 Inl f \<Rightarrow> Inl f
                               | Inr szName \<Rightarrow> Inr szName)
                            else Inr []))
                else Inr [])))"

text \<open>The logger is a process-wide singleton; a call appends a line to \<open>log\<close>.\<close>

definition WriteLine :: "LogLevel \<Rightarrow> string \<Rightarrow> process \<Rightarrow> process" where
  "WriteLine level msg s = s\<lparr>log := log s @ [LogLine level msg []]\<rparr>"

definition WriteLineFormatted ::
  "LogLevel \<Rightarrow> string \<Rightarrow> fmt_arg list \<Rightarrow> process \<Rightarrow> process" where
  "WriteLineFormatted level format args s = s\<lparr>log := log s @ [LogLine level format args]\<rparr>"

text \<open>
  \<open>bool __cdecl IsOccupantTooSmallForDemolitionAnimation(cISC4Occupant* pOccupant,
  float* unknown)\<close>.  The first argument of the model says whether the build defines
  \<open>_DEBUG\<close>: the diagnostic read and the log line are compiled in debug builds only.
\<close>

definition IsOccupantTooSmallForDemolitionAnimation ::
  "bool \<Rightarrow> heap \<Rightarrow> addr \<Rightarrow> addr \<Rightarrow> process \<Rightarrow> fault + bool \<times> process" where
  "IsOccupantTooSmallForDemolitionAnimation debug_build h pOccupant unknown s =
     (if debug_build then
        (case GetOccupantExemplarName h pOccupant of
           Inl f \<Rightarrow> Inl f
         | Inr name \<Rightarrow>
             if name \<noteq> [] then
               Inr (True,
                 WriteLineFormatted Debug
                   (''Demolished occupant '' @ [CHR 0x27] @ ''%s'' @ [CHR 0x27] @ ''.'')
                   [ArgStr name] s)
             else Inr (True, s))
      else Inr (True, s))"

section \<open>The orchestrator\<close>

text \<open>
  The address the \<open>switch\<close> of \<open>InstallDemolitionAnimationHook\<close> leaves in its local
  variable \<open>hookTargetAddress\<close>: initialised with 0, set by the one \<open>case\<close>.
\<close>

definition hookTargetAddress :: "16 word \<Rightarrow> addr" where
  "hookTargetAddress gameVersion = (if gameVersion = 641 then 0x4673bf else 0)"

text \<open>
  The source function returns nothing.  The model also returns which of its three
  branches ran, under the names the specification gives the terminal states.
\<close>

datatype outcome = Patched | Unsupported | Failed

text \<open>
  \<open>void InstallDemolitionAnimationHook()\<close>.  The game version that
  \<open>SC4VersionDetection\<close> reports and the address at which the replacement function is
  loaded are inputs of the model.
\<close>

definition InstallDemolitionAnimationHook ::
  "16 word \<Rightarrow> addr \<Rightarrow> process \<Rightarrow> outcome \<times> process" where
  "InstallDemolitionAnimationHook gameVersion pfnReplacement s =
     (if hookTargetAddress gameVersion \<noteq> 0 then
        (case InstallCallHook (hookTargetAddress gameVersion) pfnReplacement s of
           (Inr _, s1) \<Rightarrow>
             (Patched,
              WriteLine Info ''Disabled the occupant demolition animations.'' s1)
         | (Inl (ResultException e), s1) \<Rightarrow>
             (Failed,
              WriteLineFormatted Error
                (''Failed to install the demolition animations patch.'' @ [CHR 0x0A] @ ''%s'')
                [ArgWhat e] s1))
      else
        (Unsupported,
         WriteLineFormatted Error ''Unsupported game version: %d''
           [ArgInt (uint gameVersion)] s))"

text \<open>\<open>bool DisableDemolitionAnimationDllDirector::OnStart(cIGZCOM* pCOM)\<close>\<close>

definition OnStart :: "addr \<Rightarrow> 16 word \<Rightarrow> addr \<Rightarrow> process \<Rightarrow> bool \<times> process" where
  "OnStart pCOM gameVersion pfnReplacement s =
     (True, snd (InstallDemolitionAnimationHook gameVersion pfnReplacement s))"

section \<open>The address resolver of the specification\<close>

text \<open>
  The specification describes resolution as a lookup in a static table of patch
  targets that answers with an address or with NotFound.  These two definitions follow
  its words; \<open>hookTargetAddress\<close> above is what the source does.
\<close>

definition PatchTargetTable :: "(16 word \<times> addr) list" where
  "PatchTargetTable = [(641, 0x4673bf)]"

definition resolve :: "16 word \<Rightarrow> addr option" where
  "resolve v = map_of PatchTargetTable v"

section \<open>Sample states\<close>

text \<open>
  A process whose code pages are executable and readable (\<open>PAGE_EXECUTE_READ\<close>, 0x20),
  filled with \<open>nop\<close>, and in which the system grants every protection change.
\<close>

definition quiet_process :: process where
  "quiet_process =
     \<lparr>memory = (\<lambda>_. 0x90), page_prot = (\<lambda>_. 0x20), vp_refuses = (\<lambda>_ _. None),
      last_error = 0, trace = [], log = []\<rparr>"

text \<open>The same process under a system that refuses with \<open>ERROR_ACCESS_DENIED\<close> (5).\<close>

definition locked_process :: process where
  "locked_process = quiet_process\<lparr>vp_refuses := (\<lambda>_ _. Some 5)\<rparr>"

text \<open>
  A heap with three occupants: the one at 0x1000 has the exemplar name \<open>Tower\<close>, the
  one at 0x1100 has no exemplar name property, and the exemplar name of the one at
  0x1200 is not a character array.
\<close>

definition sample_heap :: heap where
  "sample_heap =
     \<lparr>occupants = [0x1000 \<mapsto> 0x2000, 0x1100 \<mapsto> 0x2100, 0x1200 \<mapsto> 0x2200],
      holders = [0x2000 \<mapsto> (\<lambda>i. if i = 0x20 then 0x3000 else 0),
                 0x2100 \<mapsto> (\<lambda>i. 0),
                 0x2200 \<mapsto> (\<lambda>i. if i = 0x20 then 0x3200 else 0)],
      properties = [0x3000 \<mapsto> 0x4000, 0x3200 \<mapsto> 0x4200],
      variants = [0x4000 \<mapsto> \<lparr>vtype = RZCharArray, rzchar = 0x5000\<rparr>,
                  0x4200 \<mapsto> \<lparr>vtype = OtherType 6, rzchar = 0\<rparr>],
      cstrings = [0x5000 \<mapsto> ''Tower'']\<rparr>"

text \<open>
  The pointers a debug build goes through while it reads the name are all valid: the
  occupant, its property holder and, when the holder has an exemplar name, the
  property, its value and, for a character array, the characters.
\<close>

definition valid_ptr :: "(addr \<rightharpoonup> 'a) \<Rightarrow> addr \<Rightarrow> bool" where
  "valid_ptr objs p = (p \<noteq> 0 \<and> objs p \<noteq> None)"

definition name_readable :: "heap \<Rightarrow> addr \<Rightarrow> bool" where
  "name_readable h pOccupant =
     (valid_ptr (occupants h) pOccupant \<and>
      valid_ptr (holders h) (the (occupants h pOccupant)) \<and>
      (let exemplarName = the (holders h (the (occupants h pOccupant))) kExemplarName in
       exemplarName = 0 \<or>
       (valid_ptr (properties h) exemplarName \<and>
        valid_ptr (variants h) (the (properties h exemplarName)) \<and>
        (let v = the (variants h (the (properties h exemplarName))) in
         vtype v = RZCharArray \<longrightarrow> valid_ptr (cstrings h) (rzchar v)))))"

text \<open>The events that write to memory, and the level of a log line.\<close>

definition is_store :: "event \<Rightarrow> bool" where
  "is_store ev = (case ev of EvVirtualProtect _ _ _ _ \<Rightarrow> False | _ \<Rightarrow> True)"

definition line_level :: "log_line \<Rightarrow> LogLevel" where
  "line_level l = (case l of LogLine level _ _ \<Rightarrow> level)"

section \<open>Properties of the memory patcher\<close>

lemma InstallCallHook_granted:
  assumes "vp_refuses s t 5 = None"
  shows "InstallCallHook t r s =
    (Inr (),
     s\<lparr>memory := (memory s)
          (t := 0xE8,
           t + 1 := ucast (r - t - 5),
           t + 2 := ucast (drop_bit 8 (r - t - 5)),
           t + 3 := ucast (drop_bit 16 (r - t - 5)),
           t + 4 := ucast (drop_bit 24 (r - t - 5))),
       page_prot := (\<lambda>p. if p \<in> set (pages_of t 5)
                           then PAGE_EXECUTE_READWRITE else page_prot s p),
       trace := trace s @
         [EvVirtualProtect t 5 PAGE_EXECUTE_READWRITE True,
          EvStore8 t 0xE8,
          EvStore32 (t + 1) (r - t - 5)]\<rparr>)"
  using assms
  by (simp add: InstallCallHook_def VirtualProtect_def THROW_IF_WIN32_BOOL_FALSE_def
      store_u8_def store_u32_def add.assoc)

lemma InstallCallHook_refused:
  assumes "vp_refuses s t 5 = Some e"
  shows "InstallCallHook t r s =
    (Inl (ResultException e),
     s\<lparr>last_error := e,
       trace := trace s @ [EvVirtualProtect t 5 PAGE_EXECUTE_READWRITE False]\<rparr>)"
  using assms
  by (simp add: InstallCallHook_def VirtualProtect_def THROW_IF_WIN32_BOOL_FALSE_def)

lemma load_u32_bytes:
  fixes v :: "32 word"
  assumes "m a = ucast v" "m (a + 1) = ucast (drop_bit 8 v)"
    "m (a + 2) = ucast (drop_bit 16 v)" "m (a + 3) = ucast (drop_bit 24 v)"
  shows "load_u32 m a = v"
  unfolding load_u32_def assms
proof (rule bit_word_eqI)
  fix n
  assume "n < LENGTH(32)"
  then show "bit (ucast (ucast v :: byte) OR
      push_bit 8 (ucast (ucast (drop_bit 8 v) :: byte)) OR
      push_bit 16 (ucast (ucast (drop_bit 16 v) :: byte)) OR
      push_bit 24 (ucast (ucast (drop_bit 24 v) :: byte)) :: 32 word) n = bit v n"
    by (cases "n < 8"; cases "n < 16"; cases "n < 24")
      (auto simp add: bit_simps not_less)
qed

text \<open>
  C1.  Whenever the system grants the protection change, \<open>InstallCallHook\<close> returns
  normally and leaves the five-byte near call at \<open>targetAddress\<close>: the opcode 0xE8 at
  the target, then the four bytes of \<open>replacementAddress - targetAddress - 5\<close>, least
  significant first (read back as a 32-bit value they are that displacement), and every
  byte outside the five keeps its value.  The values for the target 0x1000 and the
  replacement 0x2000 follow the theorem.
\<close>

theorem InstallCallHook_writes_near_call:
  assumes "vp_refuses s t 5 = None"
  shows "fst (InstallCallHook t r s) = Inr () \<and>
    memory (snd (InstallCallHook t r s)) t = 0xE8 \<and>
    memory (snd (InstallCallHook t r s)) (t + 1) = ucast (r - t - 5) \<and>
    memory (snd (InstallCallHook t r s)) (t + 2) = ucast (drop_bit 8 (r - t - 5)) \<and>
    memory (snd (InstallCallHook t r s)) (t + 3) = ucast (drop_bit 16 (r - t - 5)) \<and>
    memory (snd (InstallCallHook t r s)) (t + 4) = ucast (drop_bit 24 (r - t - 5)) \<and>
    load_u32 (memory (snd (InstallCallHook t r s))) (t + 1) = r - t - 5 \<and>
    (\<forall>a. a \<notin> {t, t + 1, t + 2, t + 3, t + 4} \<longrightarrow>
       memory (snd (InstallCallHook t r s)) a = memory s a)"
proof -
  let ?s' = "snd (InstallCallHook t r s)"
  note eq = InstallCallHook_granted [OF assms, of r]
  have ok: "fst (InstallCallHook t r s) = Inr ()" by (simp add: eq)
  have b0: "memory ?s' t = 0xE8" by (simp add: eq)
  have b1: "memory ?s' (t + 1) = ucast (r - t - 5)" by (simp add: eq)
  have b2: "memory ?s' (t + 1 + 1) = ucast (drop_bit 8 (r - t - 5))" by (simp add: eq)
  have b3: "memory ?s' (t + 1 + 2) = ucast (drop_bit 16 (r - t - 5))" by (simp add: eq)
  have b4: "memory ?s' (t + 1 + 3) = ucast (drop_bit 24 (r - t - 5))" by (simp add: eq)
  have ld: "load_u32 (memory ?s') (t + 1) = r - t - 5"
    by (rule load_u32_bytes [OF b1 b2 b3 b4])
  have frame: "\<forall>a. a \<notin> {t, t + 1, t + 2, t + 3, t + 4} \<longrightarrow> memory ?s' a = memory s a"
    by (simp add: eq)
  from b2 b3 b4 have "memory ?s' (t + 2) = ucast (drop_bit 8 (r - t - 5))"
    "memory ?s' (t + 3) = ucast (drop_bit 16 (r - t - 5))"
    "memory ?s' (t + 4) = ucast (drop_bit 24 (r - t - 5))"
    by (simp_all add: add.assoc)
  with ok b0 b1 ld frame show ?thesis by blast
qed

theorem InstallCallHook_writes_near_call_witness:
  "vp_refuses quiet_process 0x1000 5 = None \<and>
   fst (InstallCallHook 0x1000 0x2000 quiet_process) = Inr () \<and>
   load_u32 (memory (snd (InstallCallHook 0x1000 0x2000 quiet_process))) 0x1001 = 0x0FFB \<and>
   map (memory (snd (InstallCallHook 0x1000 0x2000 quiet_process)))
     [0x1000, 0x1001, 0x1002, 0x1003, 0x1004, 0x1005] =
     [0xE8, 0xFB, 0x0F, 0x00, 0x00, 0x90]"
proof -
  have h: "vp_refuses quiet_process 0x1000 5 = None"
    by (simp add: quiet_process_def)
  have m: "memory quiet_process 0x1005 = 0x90"
    by (simp add: quiet_process_def)
  show ?thesis
    using h m InstallCallHook_writes_near_call [OF h, of "0x2000"]
    by simp
qed

lemma InstallCallHook_trace:
  "trace (snd (InstallCallHook t r s)) =
     trace s @ EvVirtualProtect t 5 PAGE_EXECUTE_READWRITE (vp_refuses s t 5 = None) #
       (if vp_refuses s t 5 = None then [EvStore8 t 0xE8, EvStore32 (t + 1) (r - t - 5)] else [])"
proof (cases "vp_refuses s t 5")
  case None
  then show ?thesis by (simp add: InstallCallHook_granted)
next
  case (Some e)
  then show ?thesis by (simp add: InstallCallHook_refused)
qed

text \<open>
  C2.  Whenever the system refuses the protection change with an error \<open>e\<close>,
  \<open>InstallCallHook\<close> throws a \<open>ResultException\<close> that carries \<open>e\<close> (the value of
  \<open>GetLastError\<close>), memory and page protections are what they were, and no store has
  happened.  When the refused address is the hook target of the detected version,
  \<open>InstallDemolitionAnimationHook\<close> ends in its \<open>catch\<close> branch (Failed), memory is
  unchanged, no store has happened, and one line at level Error with the text of the
  exception is logged.  On every execution of \<open>InstallCallHook\<close> the first new event
  is the \<open>VirtualProtect\<close> call; whatever follows it is a store, and nothing follows
  it when the call failed.
\<close>

theorem refused_protection_writes_nothing:
  "(vp_refuses s t 5 = Some e \<longrightarrow>
      fst (InstallCallHook t r s) = Inl (ResultException e) \<and>
      last_error (snd (InstallCallHook t r s)) = e \<and>
      memory (snd (InstallCallHook t r s)) = memory s \<and>
      page_prot (snd (InstallCallHook t r s)) = page_prot s \<and>
      filter is_store (trace (snd (InstallCallHook t r s))) = filter is_store (trace s)) \<and>
   (hookTargetAddress v \<noteq> 0 \<and> vp_refuses s (hookTargetAddress v) 5 = Some e \<longrightarrow>
      fst (InstallDemolitionAnimationHook v pfn s) = Failed \<and>
      memory (snd (InstallDemolitionAnimationHook v pfn s)) = memory s \<and>
      filter is_store (trace (snd (InstallDemolitionAnimationHook v pfn s))) =
        filter is_store (trace s) \<and>
      log (snd (InstallDemolitionAnimationHook v pfn s)) =
        log s @ [LogLine Error
          (''Failed to install the demolition animations patch.'' @ [CHR 0x0A] @ ''%s'')
          [ArgWhat e]]) \<and>
   (\<exists>ok stores.
      trace (snd (InstallCallHook t r s)) =
        trace s @ EvVirtualProtect t 5 PAGE_EXECUTE_READWRITE ok # stores \<and>
      list_all is_store stores \<and> (ok \<or> stores = []))"
proof (intro conjI impI)
  assume h: "vp_refuses s t 5 = Some e"
  note eq = InstallCallHook_refused [OF h, of r]
  show "fst (InstallCallHook t r s) = Inl (ResultException e)" by (simp add: eq)
  show "last_error (snd (InstallCallHook t r s)) = e" by (simp add: eq)
  show "memory (snd (InstallCallHook t r s)) = memory s" by (simp add: eq)
  show "page_prot (snd (InstallCallHook t r s)) = page_prot s" by (simp add: eq)
  show "filter is_store (trace (snd (InstallCallHook t r s))) = filter is_store (trace s)"
    by (simp add: eq is_store_def)
next
  assume h: "hookTargetAddress v \<noteq> 0 \<and> vp_refuses s (hookTargetAddress v) 5 = Some e"
  then have nz: "hookTargetAddress v \<noteq> 0"
    and rf: "vp_refuses s (hookTargetAddress v) 5 = Some e" by simp_all
  note eq = InstallCallHook_refused [OF rf, of pfn]
  have run: "InstallDemolitionAnimationHook v pfn s =
    (Failed, WriteLineFormatted Error
       (''Failed to install the demolition animations patch.'' @ [CHR 0x0A] @ ''%s'')
       [ArgWhat e]
       (s\<lparr>last_error := e,
          trace := trace s @
            [EvVirtualProtect (hookTargetAddress v) 5 PAGE_EXECUTE_READWRITE False]\<rparr>))"
    using nz by (simp add: InstallDemolitionAnimationHook_def eq)
  show "fst (InstallDemolitionAnimationHook v pfn s) = Failed" by (simp add: run)
  show "memory (snd (InstallDemolitionAnimationHook v pfn s)) = memory s"
    by (simp add: run WriteLineFormatted_def)
  show "filter is_store (trace (snd (InstallDemolitionAnimationHook v pfn s))) =
        filter is_store (trace s)"
    by (simp add: run WriteLineFormatted_def is_store_def)
  show "log (snd (InstallDemolitionAnimationHook v pfn s)) =
        log s @ [LogLine Error
          (''Failed to install the demolition animations patch.'' @ [CHR 0x0A] @ ''%s'')
          [ArgWhat e]]"
    by (simp add: run WriteLineFormatted_def)
next
  show "\<exists>ok stores.
      trace (snd (InstallCallHook t r s)) =
        trace s @ EvVirtualProtect t 5 PAGE_EXECUTE_READWRITE ok # stores \<and>
      list_all is_store stores \<and> (ok \<or> stores = [])"
    unfolding InstallCallHook_trace
    by (cases "vp_refuses s t 5") (auto simp add: is_store_def)
qed

theorem refused_protection_writes_nothing_witness:
  "hookTargetAddress 641 = 0x4673bf \<and>
   vp_refuses locked_process 0x4673bf 5 = Some 5 \<and>
   fst (InstallCallHook 0x4673bf 0x10001000 locked_process) = Inl (ResultException 5) \<and>
   memory (snd (InstallCallHook 0x4673bf 0x10001000 locked_process)) 0x4673bf = 0x90 \<and>
   fst (InstallDemolitionAnimationHook 641 0x10001000 locked_process) = Failed \<and>
   memory (snd (InstallDemolitionAnimationHook 641 0x10001000 locked_process)) 0x4673bf = 0x90 \<and>
   filter is_store (trace (snd (InstallDemolitionAnimationHook 641 0x10001000 locked_process))) = [] \<and>
   log (snd (InstallDemolitionAnimationHook 641 0x10001000 locked_process)) =
     [LogLine Error
        (''Failed to install the demolition animations patch.'' @ [CHR 0x0A] @ ''%s'')
        [ArgWhat 5]]"
proof -
  have a: "hookTargetAddress 641 = 0x4673bf" by (simp add: hookTargetAddress_def)
  have h: "vp_refuses locked_process 0x4673bf 5 = Some 5"
    by (simp add: locked_process_def quiet_process_def)
  have m: "memory locked_process 0x4673bf = 0x90" "trace locked_process = []"
    "log locked_process = []"
    by (simp_all add: locked_process_def quiet_process_def)
  show ?thesis
    using a h m
      refused_protection_writes_nothing
        [of locked_process "0x4673bf" 5 "0x10001000" 641 "0x10001000"]
    by simp
qed

section \<open>Properties of the orchestrator\<close>

text \<open>
  C5.  The address the source selects for a game version is the lookup of the version
  in the table of patch targets, with 0 standing for NotFound: version 641 has the one
  entry of the table and yields 0x4673bf, every other version yields 0.  The table has
  at most one entry for a version and no entry with the address 0, so 0 is never the
  answer for a version that is in the table.  The lookup is a function of the version
  alone; it neither reads nor changes the process.
\<close>

theorem hookTargetAddress_is_table_lookup:
  "hookTargetAddress v = (case resolve v of Some a \<Rightarrow> a | None \<Rightarrow> 0) \<and>
   resolve v = (if v = 641 then Some 0x4673bf else None) \<and>
   (resolve v = None) = (hookTargetAddress v = 0) \<and>
   hookTargetAddress 641 = 0x4673bf \<and>
   distinct (map fst PatchTargetTable) \<and> 0 \<notin> snd ` set PatchTargetTable"
  by (simp add: hookTargetAddress_def resolve_def PatchTargetTable_def)

lemma InstallDemolitionAnimationHook_unsupported:
  assumes "gameVersion \<noteq> 641"
  shows "InstallDemolitionAnimationHook gameVersion pfn s =
    (Unsupported,
     s\<lparr>log := log s @
        [LogLine Error ''Unsupported game version: %d'' [ArgInt (uint gameVersion)]]\<rparr>)"
  using assms
  by (simp add: InstallDemolitionAnimationHook_def hookTargetAddress_def WriteLineFormatted_def)

text \<open>
  C6.  For every game version other than 641, \<open>InstallDemolitionAnimationHook\<close>
  returns normally through its \<open>else\<close> branch (Unsupported): memory, page protections
  and the event list are what they were, so there was no store and no
  \<open>VirtualProtect\<close> call, and the only effect is one log line with the version.
\<close>

theorem unsupported_version_is_noop:
  assumes "gameVersion \<noteq> 641"
  shows "fst (InstallDemolitionAnimationHook gameVersion pfn s) = Unsupported \<and>
    memory (snd (InstallDemolitionAnimationHook gameVersion pfn s)) = memory s \<and>
    page_prot (snd (InstallDemolitionAnimationHook gameVersion pfn s)) = page_prot s \<and>
    trace (snd (InstallDemolitionAnimationHook gameVersion pfn s)) = trace s \<and>
    log (snd (InstallDemolitionAnimationHook gameVersion pfn s)) =
      log s @ [LogLine Error ''Unsupported game version: %d'' [ArgInt (uint gameVersion)]]"
  by (simp add: InstallDemolitionAnimationHook_unsupported [OF assms])

theorem unsupported_version_is_noop_witness:
  "(610 :: 16 word) \<noteq> 641 \<and>
   fst (InstallDemolitionAnimationHook 610 0x10001000 quiet_process) = Unsupported \<and>
   trace (snd (InstallDemolitionAnimationHook 610 0x10001000 quiet_process)) = [] \<and>
   log (snd (InstallDemolitionAnimationHook 610 0x10001000 quiet_process)) =
     [LogLine Error ''Unsupported game version: %d'' [ArgInt 610]]"
proof -
  have h: "(610 :: 16 word) \<noteq> 641" by simp
  have q: "trace quiet_process = []" "log quiet_process = []"
    by (simp_all add: quiet_process_def)
  show ?thesis
    using h q unsupported_version_is_noop [OF h, of "0x10001000" quiet_process]
    by simp
qed

lemma page_in_pages_of:
  "k < n \<Longrightarrow> page_of (a + of_nat k) \<in> set (pages_of a n)"
  by (auto simp add: pages_of_def)

text \<open>
  C7.  After a successful \<open>InstallCallHook\<close> the page of each of the five patched
  bytes has the protection \<open>PAGE_EXECUTE_READWRITE\<close>, whatever it had before.  The
  function calls \<open>VirtualProtect\<close> once, before the stores, and never again; neither
  \<open>InstallDemolitionAnimationHook\<close> nor \<open>OnStart\<close> adds an event, so the protection
  is still \<open>PAGE_EXECUTE_READWRITE\<close> when \<open>OnStart\<close> returns.
\<close>

theorem protection_left_writable:
  assumes "vp_refuses s t 5 = None"
  shows "page_prot (snd (InstallCallHook t r s)) (page_of t) = PAGE_EXECUTE_READWRITE \<and>
    page_prot (snd (InstallCallHook t r s)) (page_of (t + 1)) = PAGE_EXECUTE_READWRITE \<and>
    page_prot (snd (InstallCallHook t r s)) (page_of (t + 2)) = PAGE_EXECUTE_READWRITE \<and>
    page_prot (snd (InstallCallHook t r s)) (page_of (t + 3)) = PAGE_EXECUTE_READWRITE \<and>
    page_prot (snd (InstallCallHook t r s)) (page_of (t + 4)) = PAGE_EXECUTE_READWRITE \<and>
    trace (snd (InstallCallHook t r s)) =
      trace s @ [EvVirtualProtect t 5 PAGE_EXECUTE_READWRITE True,
                 EvStore8 t 0xE8, EvStore32 (t + 1) (r - t - 5)] \<and>
    (hookTargetAddress v = t \<and> t \<noteq> 0 \<longrightarrow>
       fst (InstallDemolitionAnimationHook v r s) = Patched \<and>
       page_prot (snd (OnStart pCOM v r s)) (page_of t) = PAGE_EXECUTE_READWRITE \<and>
       trace (snd (OnStart pCOM v r s)) = trace (snd (InstallCallHook t r s)))"
proof -
  note eq = InstallCallHook_granted [OF assms, of r]
  have p0: "page_of t \<in> set (pages_of t 5)"
    using page_in_pages_of [of 0 5 t] by simp
  have p1: "page_of (t + 1) \<in> set (pages_of t 5)"
    using page_in_pages_of [of 1 5 t] by simp
  have p2: "page_of (t + 2) \<in> set (pages_of t 5)"
    using page_in_pages_of [of 2 5 t] by simp
  have p3: "page_of (t + 3) \<in> set (pages_of t 5)"
    using page_in_pages_of [of 3 5 t] by simp
  have p4: "page_of (t + 4) \<in> set (pages_of t 5)"
    using page_in_pages_of [of 4 5 t] by simp
  have orch: "hookTargetAddress v = t \<and> t \<noteq> 0 \<longrightarrow>
       fst (InstallDemolitionAnimationHook v r s) = Patched \<and>
       page_prot (snd (OnStart pCOM v r s)) (page_of t) = PAGE_EXECUTE_READWRITE \<and>
       trace (snd (OnStart pCOM v r s)) = trace (snd (InstallCallHook t r s))"
    using p0 by (auto simp add: OnStart_def InstallDemolitionAnimationHook_def eq WriteLine_def)
  show ?thesis
    using p0 p1 p2 p3 p4 orch by (simp add: eq)
qed

theorem protection_left_writable_witness:
  "vp_refuses quiet_process 0x4673bf 5 = None \<and>
   hookTargetAddress 641 = 0x4673bf \<and>
   page_prot quiet_process (page_of 0x4673bf) = 0x20 \<and>
   page_prot (snd (InstallCallHook 0x4673bf 0x10001000 quiet_process)) (page_of 0x4673bf) = 0x40 \<and>
   fst (InstallDemolitionAnimationHook 641 0x10001000 quiet_process) = Patched \<and>
   page_prot (snd (OnStart 0 641 0x10001000 quiet_process)) (page_of 0x4673bf) = 0x40"
proof -
  have h: "vp_refuses quiet_process 0x4673bf 5 = None" by (simp add: quiet_process_def)
  have a: "hookTargetAddress 641 = 0x4673bf" by (simp add: hookTargetAddress_def)
  have q: "page_prot quiet_process (page_of 0x4673bf) = 0x20" by (simp add: quiet_process_def)
  show ?thesis
    using h a q protection_left_writable [OF h, of "0x10001000" 641 0]
    by (simp add: PAGE_EXECUTE_READWRITE_def)
qed

section \<open>Installing the hook twice\<close>

text \<open>
  C8.  A second call of \<open>InstallCallHook\<close> with the same arguments ends as the first
  one did and leaves memory and page protections exactly as the first call left them.
  When the first call returns normally, the five bytes at the target are the opcode and
  the displacement after one call and after two.
\<close>

theorem InstallCallHook_twice:
  "fst (InstallCallHook t r (snd (InstallCallHook t r s))) = fst (InstallCallHook t r s) \<and>
   memory (snd (InstallCallHook t r (snd (InstallCallHook t r s)))) =
     memory (snd (InstallCallHook t r s)) \<and>
   page_prot (snd (InstallCallHook t r (snd (InstallCallHook t r s)))) =
     page_prot (snd (InstallCallHook t r s)) \<and>
   (fst (InstallCallHook t r s) = Inr () \<longrightarrow>
      map (memory (snd (InstallCallHook t r s))) [t, t + 1, t + 2, t + 3, t + 4] =
        [0xE8, ucast (r - t - 5), ucast (drop_bit 8 (r - t - 5)),
         ucast (drop_bit 16 (r - t - 5)), ucast (drop_bit 24 (r - t - 5))] \<and>
      map (memory (snd (InstallCallHook t r (snd (InstallCallHook t r s)))))
          [t, t + 1, t + 2, t + 3, t + 4] =
        [0xE8, ucast (r - t - 5), ucast (drop_bit 8 (r - t - 5)),
         ucast (drop_bit 16 (r - t - 5)), ucast (drop_bit 24 (r - t - 5))])"
proof (cases "vp_refuses s t 5")
  case None
  note eq1 = InstallCallHook_granted [OF None, of r]
  let ?s1 = "snd (InstallCallHook t r s)"
  have g1: "vp_refuses ?s1 t 5 = None" using None by (simp add: eq1)
  note eq2 = InstallCallHook_granted [OF g1, of r]
  have ok: "fst (InstallCallHook t r ?s1) = fst (InstallCallHook t r s)"
    by (simp add: eq2, simp add: eq1)
  have mem: "memory (snd (InstallCallHook t r ?s1)) = memory ?s1"
    by (rule ext) (simp add: eq2, simp add: eq1)
  have prot: "page_prot (snd (InstallCallHook t r ?s1)) = page_prot ?s1"
    by (rule ext) (simp add: eq2, simp add: eq1)
  have bytes: "map (memory ?s1) [t, t + 1, t + 2, t + 3, t + 4] =
      [0xE8, ucast (r - t - 5), ucast (drop_bit 8 (r - t - 5)),
       ucast (drop_bit 16 (r - t - 5)), ucast (drop_bit 24 (r - t - 5))]"
    by (simp add: eq1)
  show ?thesis using ok prot bytes unfolding mem by simp
next
  case (Some e)
  note eq1 = InstallCallHook_refused [OF Some, of r]
  let ?s1 = "snd (InstallCallHook t r s)"
  have r1: "vp_refuses ?s1 t 5 = Some e" using Some by (simp add: eq1)
  note eq2 = InstallCallHook_refused [OF r1, of r]
  have ok: "fst (InstallCallHook t r ?s1) = fst (InstallCallHook t r s)"
    by (simp add: eq2, simp add: eq1)
  have mem: "memory (snd (InstallCallHook t r ?s1)) = memory ?s1"
    by (simp add: eq2)
  have prot: "page_prot (snd (InstallCallHook t r ?s1)) = page_prot ?s1"
    by (simp add: eq2)
  have thrown: "fst (InstallCallHook t r s) \<noteq> Inr ()" by (simp add: eq1)
  show ?thesis using ok prot thrown unfolding mem by simp
qed

theorem InstallCallHook_twice_witness:
  "fst (InstallCallHook 0x1000 0x2000 quiet_process) = Inr () \<and>
   fst (InstallCallHook 0x1000 0x2000 (snd (InstallCallHook 0x1000 0x2000 quiet_process))) =
     Inr () \<and>
   map (memory (snd (InstallCallHook 0x1000 0x2000 quiet_process)))
     [0x1000, 0x1001, 0x1002, 0x1003, 0x1004] = [0xE8, 0xFB, 0x0F, 0x00, 0x00] \<and>
   map (memory (snd (InstallCallHook 0x1000 0x2000
          (snd (InstallCallHook 0x1000 0x2000 quiet_process)))))
     [0x1000, 0x1001, 0x1002, 0x1003, 0x1004] = [0xE8, 0xFB, 0x0F, 0x00, 0x00]"
proof -
  let ?s1 = "snd (InstallCallHook 0x1000 0x2000 quiet_process)"
  let ?s2 = "snd (InstallCallHook 0x1000 0x2000 ?s1)"
  have g: "vp_refuses quiet_process 0x1000 5 = None" by (simp add: quiet_process_def)
  have h: "fst (InstallCallHook 0x1000 0x2000 quiet_process) = Inr ()"
    by (simp add: InstallCallHook_granted [OF g])
  have one: "map (memory ?s1) [0x1000, 0x1001, 0x1002, 0x1003, 0x1004] =
      [0xE8, 0xFB, 0x0F, 0x00, 0x00]"
    by (simp add: InstallCallHook_granted [OF g])
  note twice = InstallCallHook_twice [of "0x1000" "0x2000" quiet_process]
  from twice h have ok: "fst (InstallCallHook 0x1000 0x2000 ?s1) = Inr ()"
    by (simp only:)
  from twice have same: "memory ?s2 = memory ?s1"
    by (rule conjunct2 [THEN conjunct1])
  show ?thesis
    unfolding same using h ok one by simp
qed

section \<open>The host entry point\<close>

text \<open>
  C9.  \<open>OnStart\<close> returns \<open>true\<close> for every game version, every address of the
  replacement function and every state of the process, whichever branch
  \<open>InstallDemolitionAnimationHook\<close> took; the process it leaves is the one
  \<open>InstallDemolitionAnimationHook\<close> left.
\<close>

theorem OnStart_returns_true:
  "fst (OnStart pCOM gameVersion pfn s) = True \<and>
   snd (OnStart pCOM gameVersion pfn s) =
     snd (InstallDemolitionAnimationHook gameVersion pfn s)"
  by (simp add: OnStart_def)

text \<open>The three outcomes are reached, and \<open>OnStart\<close> returns \<open>true\<close> in each.\<close>

lemma OnStart_outcomes:
  "fst (InstallDemolitionAnimationHook 641 0x10001000 quiet_process) = Patched"
  "fst (InstallDemolitionAnimationHook 641 0x10001000 locked_process) = Failed"
  "fst (InstallDemolitionAnimationHook 610 0x10001000 quiet_process) = Unsupported"
  "fst (OnStart 0 641 0x10001000 quiet_process) = True"
  "fst (OnStart 0 641 0x10001000 locked_process) = True"
  "fst (OnStart 0 610 0x10001000 quiet_process) = True"
  by (simp_all add: OnStart_def InstallDemolitionAnimationHook_def hookTargetAddress_def
      InstallCallHook_def VirtualProtect_def THROW_IF_WIN32_BOOL_FALSE_def
      quiet_process_def locked_process_def)

section \<open>Properties of the replacement function\<close>

lemma GetOccupantExemplarName_readable:
  assumes "name_readable h p"
  shows "\<exists>name. GetOccupantExemplarName h p = Inr name"
  using assms
  by (auto simp add: name_readable_def valid_ptr_def GetOccupantExemplarName_def deref_def
      Let_def split: option.splits)

lemma IsOccupantTooSmall_result:
  assumes "IsOccupantTooSmallForDemolitionAnimation d h p u s = Inr (b, s')"
  shows "b \<and> (s' = s \<or> (\<exists>name. s' = WriteLineFormatted Debug
      (''Demolished occupant '' @ [CHR 0x27] @ ''%s'' @ [CHR 0x27] @ ''.'') [ArgStr name] s))"
  using assms
  by (auto simp add: IsOccupantTooSmallForDemolitionAnimation_def
      split: if_splits sum.splits)

lemma sample_heap_Tower: "GetOccupantExemplarName sample_heap 0x1000 = Inr ''Tower''"
  by (simp add: GetOccupantExemplarName_def deref_def sample_heap_def kExemplarName_def)

text \<open>
  C3.  In a build without \<open>_DEBUG\<close> the replacement function returns
  \<open>true\<close> for every pair of arguments, valid or not.  In a debug build it returns
  \<open>true\<close> whenever the pointers the diagnostic read goes through are valid, and no
  execution of either build returns \<open>false\<close>.
\<close>

theorem replacement_returns_true:
  "(\<not> debug_build \<or> name_readable h pOccupant \<longrightarrow>
      (\<exists>s'. IsOccupantTooSmallForDemolitionAnimation debug_build h pOccupant unknown s =
         Inr (True, s'))) \<and>
   (\<forall>b s'. IsOccupantTooSmallForDemolitionAnimation debug_build h pOccupant unknown s =
         Inr (b, s') \<longrightarrow> b)"
proof (intro conjI impI allI)
  assume h: "\<not> debug_build \<or> name_readable h pOccupant"
  show "\<exists>s'. IsOccupantTooSmallForDemolitionAnimation debug_build h pOccupant unknown s =
         Inr (True, s')"
  proof (cases debug_build)
    case False
    then show ?thesis by (simp add: IsOccupantTooSmallForDemolitionAnimation_def)
  next
    case True
    with h have "name_readable h pOccupant" by simp
    then obtain name where "GetOccupantExemplarName h pOccupant = Inr name"
      using GetOccupantExemplarName_readable by blast
    then show ?thesis by (simp add: IsOccupantTooSmallForDemolitionAnimation_def)
  qed
next
  fix b s'
  assume "IsOccupantTooSmallForDemolitionAnimation debug_build h pOccupant unknown s =
         Inr (b, s')"
  then show b by (rule IsOccupantTooSmall_result [THEN conjunct1])
qed

theorem replacement_returns_true_witness:
  "name_readable sample_heap 0x1000 \<and>
   (\<exists>s'. IsOccupantTooSmallForDemolitionAnimation True sample_heap 0x1000 0 quiet_process =
      Inr (True, s')) \<and>
   IsOccupantTooSmallForDemolitionAnimation True sample_heap 0x1000 0 quiet_process =
     Inr (True, quiet_process\<lparr>log := [LogLine Debug
        (''Demolished occupant '' @ [CHR 0x27] @ ''%s'' @ [CHR 0x27] @ ''.'')
        [ArgStr ''Tower'']]\<rparr>)"
proof -
  have r: "name_readable sample_heap 0x1000"
    by (simp add: name_readable_def valid_ptr_def sample_heap_def kExemplarName_def)
  have v: "IsOccupantTooSmallForDemolitionAnimation True sample_heap 0x1000 0 quiet_process =
     Inr (True, quiet_process\<lparr>log := [LogLine Debug
        (''Demolished occupant '' @ [CHR 0x27] @ ''%s'' @ [CHR 0x27] @ ''.'')
        [ArgStr ''Tower'']]\<rparr>)"
    by (simp add: IsOccupantTooSmallForDemolitionAnimation_def sample_heap_Tower
        WriteLineFormatted_def quiet_process_def)
  from r replacement_returns_true [of True sample_heap "0x1000" 0 quiet_process]
  have "\<exists>s'. IsOccupantTooSmallForDemolitionAnimation True sample_heap 0x1000 0 quiet_process =
      Inr (True, s')"
    by blast
  with r v show ?thesis by blast
qed

text \<open>
  In a debug build the name is read through the occupant pointer before the function
  returns: with a null occupant the call ends in a fault, not in \<open>true\<close>.
\<close>

theorem null_occupant_debug_counterexample:
  "IsOccupantTooSmallForDemolitionAnimation True sample_heap 0 0 quiet_process =
     Inl AccessViolation"
  by (simp add: IsOccupantTooSmallForDemolitionAnimation_def GetOccupantExemplarName_def
      deref_def)

text \<open>
  C4.  A property holder without an exemplar name and an exemplar name
  whose value is not a character array are guarded: the function returns \<open>true\<close> and
  logs nothing.  A build without \<open>_DEBUG\<close> reads nothing, so there an invalid occupant
  pointer does no harm either.  Whenever the function returns, the lines of level Error
  in the log are the ones that were there before.
\<close>

theorem diagnostic_read_guards:
  "(deref (occupants h) pOccupant = Inr holder \<and>
    deref (holders h) holder = Inr GetProperty \<and>
    GetProperty kExemplarName = 0 \<longrightarrow>
      IsOccupantTooSmallForDemolitionAnimation debug_build h pOccupant unknown s =
        Inr (True, s)) \<and>
   (deref (occupants h) pOccupant = Inr holder \<and>
    deref (holders h) holder = Inr GetProperty \<and>
    deref (properties h) (GetProperty kExemplarName) = Inr propertyValue \<and>
    deref (variants h) propertyValue = Inr v \<and>
    vtype v \<noteq> RZCharArray \<longrightarrow>
      IsOccupantTooSmallForDemolitionAnimation debug_build h pOccupant unknown s =
        Inr (True, s)) \<and>
   (\<not> debug_build \<longrightarrow>
      IsOccupantTooSmallForDemolitionAnimation debug_build h pOccupant unknown s =
        Inr (True, s)) \<and>
   (\<forall>b s'. IsOccupantTooSmallForDemolitionAnimation debug_build h pOccupant unknown s =
        Inr (b, s') \<longrightarrow>
      filter (\<lambda>l. line_level l = Error) (log s') =
      filter (\<lambda>l. line_level l = Error) (log s))"
proof (intro conjI impI allI)
  assume "deref (occupants h) pOccupant = Inr holder \<and>
    deref (holders h) holder = Inr GetProperty \<and>
    GetProperty kExemplarName = 0"
  then show "IsOccupantTooSmallForDemolitionAnimation debug_build h pOccupant unknown s =
        Inr (True, s)"
    by (simp add: IsOccupantTooSmallForDemolitionAnimation_def GetOccupantExemplarName_def)
next
  assume a: "deref (occupants h) pOccupant = Inr holder \<and>
    deref (holders h) holder = Inr GetProperty \<and>
    deref (properties h) (GetProperty kExemplarName) = Inr propertyValue \<and>
    deref (variants h) propertyValue = Inr v \<and>
    vtype v \<noteq> RZCharArray"
  then have "GetProperty kExemplarName \<noteq> 0"
    by (auto simp add: deref_def)
  with a show "IsOccupantTooSmallForDemolitionAnimation debug_build h pOccupant unknown s =
        Inr (True, s)"
    by (simp add: IsOccupantTooSmallForDemolitionAnimation_def GetOccupantExemplarName_def)
next
  assume "\<not> debug_build"
  then show "IsOccupantTooSmallForDemolitionAnimation debug_build h pOccupant unknown s =
        Inr (True, s)"
    by (simp add: IsOccupantTooSmallForDemolitionAnimation_def)
next
  fix b s'
  assume "IsOccupantTooSmallForDemolitionAnimation debug_build h pOccupant unknown s =
        Inr (b, s')"
  from IsOccupantTooSmall_result [OF this]
  show "filter (\<lambda>l. line_level l = Error) (log s') =
      filter (\<lambda>l. line_level l = Error) (log s)"
    by (auto simp add: WriteLineFormatted_def line_level_def)
qed

theorem diagnostic_read_guards_witness:
  "deref (occupants sample_heap) 0x1100 = Inr 0x2100 \<and>
   deref (holders sample_heap) 0x2100 = Inr (\<lambda>i. 0) \<and>
   IsOccupantTooSmallForDemolitionAnimation True sample_heap 0x1100 0 quiet_process =
     Inr (True, quiet_process) \<and>
   deref (occupants sample_heap) 0x1200 = Inr 0x2200 \<and>
   deref (properties sample_heap) 0x3200 = Inr 0x4200 \<and>
   deref (variants sample_heap) 0x4200 = Inr \<lparr>vtype = OtherType 6, rzchar = 0\<rparr> \<and>
   IsOccupantTooSmallForDemolitionAnimation True sample_heap 0x1200 0 quiet_process =
     Inr (True, quiet_process) \<and>
   IsOccupantTooSmallForDemolitionAnimation False sample_heap 0 0 quiet_process =
     Inr (True, quiet_process) \<and>
   filter (\<lambda>l. line_level l = Error) (log (quiet_process\<lparr>log := [LogLine Debug
        (''Demolished occupant '' @ [CHR 0x27] @ ''%s'' @ [CHR 0x27] @ ''.'')
        [ArgStr ''Tower'']]\<rparr>)) = []"
proof -
  have o1: "deref (occupants sample_heap) 0x1100 = Inr 0x2100"
    by (simp add: deref_def sample_heap_def)
  have h1: "deref (holders sample_heap) 0x2100 = Inr (\<lambda>i. 0)"
    by (simp add: deref_def sample_heap_def)
  have o2: "deref (occupants sample_heap) 0x1200 = Inr 0x2200"
    by (simp add: deref_def sample_heap_def)
  have h2: "deref (holders sample_heap) 0x2200 = Inr (\<lambda>i. if i = 0x20 then 0x3200 else 0)"
    by (simp add: deref_def sample_heap_def)
  have p2: "deref (properties sample_heap) 0x3200 = Inr 0x4200"
    by (simp add: deref_def sample_heap_def)
  have v2: "deref (variants sample_heap) 0x4200 = Inr \<lparr>vtype = OtherType 6, rzchar = 0\<rparr>"
    by (simp add: deref_def sample_heap_def)
  have absent: "IsOccupantTooSmallForDemolitionAnimation True sample_heap 0x1100 0 quiet_process =
     Inr (True, quiet_process)"
    using o1 h1
      diagnostic_read_guards [of sample_heap "0x1100" "0x2100" "\<lambda>i. 0" True 0 quiet_process]
    by simp
  have wrong: "IsOccupantTooSmallForDemolitionAnimation True sample_heap 0x1200 0 quiet_process =
     Inr (True, quiet_process)"
    using o2 h2 p2 v2
      diagnostic_read_guards [of sample_heap "0x1200" "0x2200"
        "\<lambda>i. if i = 0x20 then 0x3200 else 0" True 0 quiet_process "0x4200"
        "\<lparr>vtype = OtherType 6, rzchar = 0\<rparr>"]
    by (simp add: kExemplarName_def)
  have release: "IsOccupantTooSmallForDemolitionAnimation False sample_heap 0 0 quiet_process =
     Inr (True, quiet_process)"
    using diagnostic_read_guards [of sample_heap 0 0 "\<lambda>i. 0" False 0 quiet_process]
    by simp
  have tower: "IsOccupantTooSmallForDemolitionAnimation True sample_heap 0x1000 0 quiet_process =
     Inr (True, quiet_process\<lparr>log := [LogLine Debug
        (''Demolished occupant '' @ [CHR 0x27] @ ''%s'' @ [CHR 0x27] @ ''.'')
        [ArgStr ''Tower'']]\<rparr>)"
    by (simp add: IsOccupantTooSmallForDemolitionAnimation_def sample_heap_Tower
        WriteLineFormatted_def quiet_process_def)
  have quiet: "filter (\<lambda>l. line_level l = Error) (log (quiet_process\<lparr>log := [LogLine Debug
        (''Demolished occupant '' @ [CHR 0x27] @ ''%s'' @ [CHR 0x27] @ ''.'')
        [ArgStr ''Tower'']]\<rparr>)) = []"
    using tower
      diagnostic_read_guards [of sample_heap "0x1000" 0 "\<lambda>i. 0" True 0 quiet_process]
    by (simp add: quiet_process_def line_level_def)
  from o1 h1 absent o2 p2 v2 wrong release quiet show ?thesis by blast
qed

text \<open>
  In a debug build an occupant pointer at which there is no occupant is not guarded:
  the fault leaves the replacement function.
\<close>

theorem dangling_occupant_debug_counterexample:
  "IsOccupantTooSmallForDemolitionAnimation True sample_heap 0xDEADBEEF 0 quiet_process =
     Inl AccessViolation"
  by (simp add: IsOccupantTooSmallForDemolitionAnimation_def GetOccupantExemplarName_def
      deref_def sample_heap_def)

text \<open>
  C10.  In a build without \<open>_DEBUG\<close> the replacement function returns \<open>true\<close> and
  leaves the process as it was, for every heap and every pair of arguments: the result
  is the same for any two pairs of arguments and any two heaps, also for a heap with no
  object at either address, so neither pointer is followed.
\<close>

theorem release_build_ignores_arguments:
  "IsOccupantTooSmallForDemolitionAnimation False h pOccupant unknown s = Inr (True, s) \<and>
   IsOccupantTooSmallForDemolitionAnimation False h pOccupant unknown s =
     IsOccupantTooSmallForDemolitionAnimation False h' pOccupant' unknown' s"
  by (simp add: IsOccupantTooSmallForDemolitionAnimation_def)

end
